theory Spec2Isabelle
  imports Main "HOL-Library.Word" "HOL-Library.Sublist"
begin

unbundle bit_operations_syntax

section \<open>Values\<close>

text \<open>
  The handler of \<^verbatim>\<open>lambda_function.py\<close> receives a JSON-decoded event, reads a JSON-decoded
  provider response and returns a dictionary. Python values that can occur there are
  modelled by the datatype \<open>json\<close>. A dictionary is an association list in insertion
  order, looked up with \<open>map_of\<close>. A string is a \<open>char list\<close>; a \<open>char\<close> stands for a
  code point below 256. A float is carried by the three things the program can observe of
  it: whether it is non-zero, its \<^verbatim>\<open>repr\<close> and its JSON text.
\<close>

datatype pyfloat = PyFloat (float_nonzero: bool) (float_repr: string) (float_json: string)

datatype json =
    JNull
  | JBool bool
  | JInt int
  | JFloat pyfloat
  | JStr string
  | JList "json list"
  | JObj "(string \<times> json) list"

type_synonym byte = "8 word"

text \<open>Exceptions are values; \<open>ClientError\<close> is whatever a backend call raises.\<close>

datatype error =
    AttributeError
  | TypeError
  | KeyError
  | IndexError
  | ValueError
  | BinasciiError
  | ClientError string

section \<open>The Python operations the handler uses\<close>

text \<open>Truth value of a value, and \<^verbatim>\<open>x or d\<close>.\<close>

fun truthy :: "json \<Rightarrow> bool" where
  "truthy JNull = False"
| "truthy (JBool b) = b"
| "truthy (JInt i) = (i \<noteq> 0)"
| "truthy (JFloat f) = float_nonzero f"
| "truthy (JStr s) = (s \<noteq> [])"
| "truthy (JList xs) = (xs \<noteq> [])"
| "truthy (JObj kvs) = (kvs \<noteq> [])"

definition py_or :: "json \<Rightarrow> json \<Rightarrow> json" where
  "py_or x d = (if truthy x then x else d)"

text \<open>\<^verbatim>\<open>x.get(k)\<close>: only a dictionary has the method; a missing key gives \<^verbatim>\<open>None\<close>.\<close>

fun dict_get :: "json \<Rightarrow> string \<Rightarrow> error + json" where
  "dict_get (JObj kvs) k = Inr (case map_of kvs k of None \<Rightarrow> JNull | Some v \<Rightarrow> v)"
| "dict_get _ k = Inl AttributeError"

text \<open>\<^verbatim>\<open>k in x\<close> for a string \<open>k\<close>.\<close>

fun py_in :: "string \<Rightarrow> json \<Rightarrow> error + bool" where
  "py_in k (JObj kvs) = Inr (map_of kvs k \<noteq> None)"
| "py_in k (JList xs) = Inr (JStr k \<in> set xs)"
| "py_in k (JStr s) = Inr (sublist k s)"
| "py_in k _ = Inl TypeError"

text \<open>\<^verbatim>\<open>x[k]\<close> for a string \<open>k\<close>, and \<^verbatim>\<open>x[0]\<close>.\<close>

fun getitem_key :: "json \<Rightarrow> string \<Rightarrow> error + json" where
  "getitem_key (JObj kvs) k = (case map_of kvs k of None \<Rightarrow> Inl KeyError | Some v \<Rightarrow> Inr v)"
| "getitem_key _ k = Inl TypeError"

fun getitem0 :: "json \<Rightarrow> error + json" where
  "getitem0 (JList []) = Inl IndexError"
| "getitem0 (JList (x # xs)) = Inr x"
| "getitem0 (JStr []) = Inl IndexError"
| "getitem0 (JStr (c # cs)) = Inr (JStr [c])"
| "getitem0 (JObj kvs) = Inl KeyError"
| "getitem0 _ = Inl TypeError"

text \<open>\<^verbatim>\<open>s.strip()\<close>: the white space of \<^verbatim>\<open>str.isspace\<close> among the code points below 256.\<close>

definition py_isspace :: "char \<Rightarrow> bool" where
  "py_isspace c \<longleftrightarrow>
     (of_char c :: nat) \<in> set [0x09, 0x0A, 0x0B, 0x0C, 0x0D, 0x1C, 0x1D, 0x1E, 0x1F, 0x20, 0x85, 0xA0]"

definition strip :: "string \<Rightarrow> string" where
  "strip s = rev (dropWhile py_isspace (rev (dropWhile py_isspace s)))"

text \<open>Decimal and hexadecimal digits.\<close>

fun dec_nat :: "nat \<Rightarrow> string" where
  "dec_nat n =
     (if n < 10 then [char_of (48 + n)] else dec_nat (n div 10) @ [char_of (48 + n mod 10)])"

declare dec_nat.simps [simp del]

definition dec_int :: "int \<Rightarrow> string" where
  "dec_int i = (if i < 0 then CHR ''-'' # dec_nat (nat (- i)) else dec_nat (nat i))"

definition hexdigit :: "nat \<Rightarrow> char" where
  "hexdigit n = (if n < 10 then char_of (48 + n) else char_of (87 + n))"

definition zfill :: "nat \<Rightarrow> string \<Rightarrow> string" where
  "zfill n s = replicate (n - length s) CHR ''0'' @ s"

fun join :: "string \<Rightarrow> string list \<Rightarrow> string" where
  "join sep [] = []"
| "join sep [x] = x"
| "join sep (x # y # ys) = x @ sep @ join sep (y # ys)"

text \<open>
  \<^verbatim>\<open>str(x)\<close>: a string is itself, any other value is its \<^verbatim>\<open>repr\<close>. The \<^verbatim>\<open>repr\<close> of a string
  quotes it with \<^verbatim>\<open>'\<close>, or with \<^verbatim>\<open>"\<close> when it holds a \<^verbatim>\<open>'\<close> and no \<^verbatim>\<open>"\<close>, and escapes what is not
  printable.
\<close>

definition repr_quote :: "string \<Rightarrow> char" where
  "repr_quote s = (if CHR 0x27 \<in> set s \<and> CHR 0x22 \<notin> set s then CHR 0x22 else CHR 0x27)"

definition repr_char :: "char \<Rightarrow> char \<Rightarrow> string" where
  "repr_char q c =
     (let n = (of_char c :: nat) in
      if c = q \<or> c = CHR 0x5C then [CHR 0x5C, c]
      else if c = CHR 0x09 then [CHR 0x5C, CHR ''t'']
      else if c = CHR 0x0A then [CHR 0x5C, CHR ''n'']
      else if c = CHR 0x0D then [CHR 0x5C, CHR ''r'']
      else if n < 0x20 \<or> (0x7F \<le> n \<and> n \<le> 0xA0) \<or> n = 0xAD
        then [CHR 0x5C, CHR ''x'', hexdigit (n div 16), hexdigit (n mod 16)]
      else [c])"

definition repr_str :: "string \<Rightarrow> string" where
  "repr_str s = (let q = repr_quote s in q # concat (map (repr_char q) s) @ [q])"

fun py_repr :: "json \<Rightarrow> string" where
  "py_repr JNull = ''None''"
| "py_repr (JBool b) = (if b then ''True'' else ''False'')"
| "py_repr (JInt i) = dec_int i"
| "py_repr (JFloat f) = float_repr f"
| "py_repr (JStr s) = repr_str s"
| "py_repr (JList xs) = ''['' @ join '', '' (map py_repr xs) @ '']''"
| "py_repr (JObj kvs) =
     ''{'' @ join '', '' (map (\<lambda>(k, v). repr_str k @ '': '' @ py_repr v) kvs) @ ''}''"

fun py_str :: "json \<Rightarrow> string" where
  "py_str (JStr s) = s"
| "py_str v = py_repr v"

text \<open>
  \<^verbatim>\<open>json.dumps(x)\<close> with its defaults: separators \<^verbatim>\<open>", "\<close> and \<^verbatim>\<open>": "\<close>, and every character
  outside the printable ASCII range escaped.
\<close>

definition json_escape_char :: "char \<Rightarrow> string" where
  "json_escape_char c =
     (let n = (of_char c :: nat) in
      if c = CHR 0x22 then [CHR 0x5C, CHR 0x22]
      else if c = CHR 0x5C then [CHR 0x5C, CHR 0x5C]
      else if c = CHR 0x0A then [CHR 0x5C, CHR ''n'']
      else if c = CHR 0x0D then [CHR 0x5C, CHR ''r'']
      else if c = CHR 0x09 then [CHR 0x5C, CHR ''t'']
      else if c = CHR 0x08 then [CHR 0x5C, CHR ''b'']
      else if c = CHR 0x0C then [CHR 0x5C, CHR ''f'']
      else if n < 0x20 \<or> 0x7E < n
        then [CHR 0x5C, CHR ''u'', CHR ''0'', CHR ''0'', hexdigit (n div 16), hexdigit (n mod 16)]
      else [c])"

definition json_string :: "string \<Rightarrow> string" where
  "json_string s = CHR 0x22 # concat (map json_escape_char s) @ [CHR 0x22]"

fun json_dumps :: "json \<Rightarrow> string" where
  "json_dumps JNull = ''null''"
| "json_dumps (JBool b) = (if b then ''true'' else ''false'')"
| "json_dumps (JInt i) = dec_int i"
| "json_dumps (JFloat f) = float_json f"
| "json_dumps (JStr s) = json_string s"
| "json_dumps (JList xs) = ''['' @ join '', '' (map json_dumps xs) @ '']''"
| "json_dumps (JObj kvs) =
     ''{'' @ join '', '' (map (\<lambda>(k, v). json_string k @ '': '' @ json_dumps v) kvs) @ ''}''"

text \<open>
  \<^verbatim>\<open>base64.b64decode(x)\<close> with its defaults. A string must be ASCII; anything that is not a
  string raises \<^verbatim>\<open>TypeError\<close> (JSON gives no bytes). The decoding is the lenient one of
  \<^verbatim>\<open>binascii.a2b_base64\<close>: characters outside the alphabet are skipped, a complete padding
  ends the input, and an incomplete last group is an error. The arguments of
  \<open>a2b_base64\<close> are the position in the group of four, the bits left over, the padding
  characters seen and the bytes written so far.
\<close>

definition b64_value :: "char \<Rightarrow> nat option" where
  "b64_value c =
     (let n = (of_char c :: nat) in
      if 0x41 \<le> n \<and> n \<le> 0x5A then Some (n - 0x41)
      else if 0x61 \<le> n \<and> n \<le> 0x7A then Some (n - 0x61 + 26)
      else if 0x30 \<le> n \<and> n \<le> 0x39 then Some (n - 0x30 + 52)
      else if c = CHR ''+'' then Some 62
      else if c = CHR ''/'' then Some 63
      else None)"

fun a2b_base64 :: "nat \<Rightarrow> byte \<Rightarrow> nat \<Rightarrow> byte list \<Rightarrow> string \<Rightarrow> error + byte list" where
  "a2b_base64 quad_pos leftchar pads out [] =
     (if quad_pos \<noteq> 0 then Inl BinasciiError else Inr out)"
| "a2b_base64 quad_pos leftchar pads out (c # cs) =
     (if c = CHR ''=''
      then (if 2 \<le> quad_pos \<and> 4 \<le> quad_pos + (pads + 1) then Inr out
            else a2b_base64 quad_pos leftchar (if 2 \<le> quad_pos then pads + 1 else pads) out cs)
      else (case b64_value c of
          None \<Rightarrow> a2b_base64 quad_pos leftchar pads out cs
        | Some v \<Rightarrow>
            let this_ch = (of_nat v :: byte) in
            if quad_pos = 0 then a2b_base64 1 this_ch 0 out cs
            else if quad_pos = 1
              then a2b_base64 2 (this_ch AND 0x0F) 0
                     (out @ [push_bit 2 leftchar OR drop_bit 4 this_ch]) cs
            else if quad_pos = 2
              then a2b_base64 3 (this_ch AND 0x03) 0
                     (out @ [push_bit 4 leftchar OR drop_bit 2 this_ch]) cs
            else a2b_base64 0 0 0 (out @ [push_bit 6 leftchar OR this_ch]) cs))"

fun b64decode :: "json \<Rightarrow> error + byte list" where
  "b64decode (JStr s) =
     (if list_all (\<lambda>c. (of_char c :: nat) < 128) s then a2b_base64 0 0 0 [] s
      else Inl ValueError)"
| "b64decode _ = Inl TypeError"

text \<open>
  \<^verbatim>\<open>datetime.now(timezone.utc).strftime("%Y%m%dT%H%M%SZ")\<close>: the clock reading is a record
  of its six fields, printed as four and five times two digits.
\<close>

record datetime =
  dt_year :: nat
  dt_month :: nat
  dt_day :: nat
  dt_hour :: nat
  dt_minute :: nat
  dt_second :: nat

definition strftime :: "datetime \<Rightarrow> string" where
  "strftime t =
     zfill 4 (dec_nat (dt_year t)) @ zfill 2 (dec_nat (dt_month t)) @ zfill 2 (dec_nat (dt_day t))
     @ ''T'' @ zfill 2 (dec_nat (dt_hour t)) @ zfill 2 (dec_nat (dt_minute t))
     @ zfill 2 (dec_nat (dt_second t)) @ ''Z''"

text \<open>\<^verbatim>\<open>uuid.uuid4().hex\<close>: the 128 bits of the identifier as 32 hexadecimal digits.\<close>

definition uuid_hex :: "128 word \<Rightarrow> string" where
  "uuid_hex u = map (\<lambda>i. hexdigit (unat (drop_bit (4 * i) u AND 0xF))) (rev [0..<32])"

section \<open>Configuration, backends and the trace of a run\<close>

text \<open>
  Lines 10 to 27 of the module run once, when it is loaded. The three string settings are
  read from the environment with a default and stripped; \<^verbatim>\<open>URL_EXPIRES_SECONDS\<close> goes
  through \<^verbatim>\<open>int\<close>, which is taken as a parameter here. A value that \<^verbatim>\<open>int\<close> rejects stops
  the module from loading, so that no handler runs.
\<close>

definition BEDROCK_REGION :: string where
  "BEDROCK_REGION = ''us-west-2''"

definition S3_REGION :: string where
  "S3_REGION = ''us-east-2''"

record config =
  MODEL_ID :: string
  BUCKET_NAME :: string
  KEY_PREFIX :: string
  URL_EXPIRES_SECONDS :: int

definition environ_get :: "(string \<rightharpoonup> string) \<Rightarrow> string \<Rightarrow> string \<Rightarrow> string" where
  "environ_get environ k d = (case environ k of None \<Rightarrow> d | Some v \<Rightarrow> v)"

definition load_config :: "(string \<Rightarrow> error + int) \<Rightarrow> (string \<rightharpoonup> string) \<Rightarrow> error + config" where
  "load_config py_int environ =
     (case py_int (environ_get environ ''URL_EXPIRES_SECONDS'' ''3600'') of
        Inl e \<Rightarrow> Inl e
      | Inr n \<Rightarrow> Inr \<lparr>
          MODEL_ID = strip (environ_get environ ''MODEL_ID'' ''stability.sd3-5-large-v1:0''),
          BUCKET_NAME = strip (environ_get environ ''BUCKET_NAME'' ''myovieostermageenerator03''),
          KEY_PREFIX = strip (environ_get environ ''KEY_PREFIX'' ''generated/''),
          URL_EXPIRES_SECONDS = n \<rparr>)"

text \<open>
  What lies outside the module is the \<open>world\<close> of one invocation: the loaded
  configuration, the answer of each backend call as a function of its arguments, the clock
  reading and the random identifier. \<open>invoke_model\<close> gives the response body already read
  and parsed by \<^verbatim>\<open>json.loads\<close> (lines 85 to 92), or the exception one of the three steps
  raises.
\<close>

record world =
  cfg :: config
  invoke_model :: "string \<Rightarrow> string \<Rightarrow> string \<Rightarrow> string \<Rightarrow> error + json"
  put_object :: "string \<Rightarrow> string \<Rightarrow> byte list \<Rightarrow> string \<Rightarrow> error + unit"
  generate_presigned_url :: "string \<Rightarrow> string \<Rightarrow> string \<Rightarrow> int \<Rightarrow> string \<Rightarrow> error + string"
  utcnow :: datetime
  uuid4 :: "128 word"

text \<open>
  A run leaves a trace: the backend calls it made and the lines it printed, in order.
  The arguments are those of the source: \<open>InvokeModel modelId contentType accept body\<close>,
  \<open>PutObject Bucket Key Body ContentType\<close> and
  \<open>GeneratePresignedUrl ClientMethod Bucket Key ExpiresIn HttpMethod\<close>.
\<close>

datatype call =
    InvokeModel string string string string
  | PutObject string string "byte list" string
  | GeneratePresignedUrl string string string int string
  | Print string

record response =
  statusCode :: int
  headers :: "(string \<times> string) list"
  body :: string

type_synonym run = "call list \<times> (error + response)"

section \<open>The module\<close>

text \<open>
  The functions of \<^verbatim>\<open>lambda_function.py\<close>. The names \<^verbatim>\<open>_headers\<close>, \<^verbatim>\<open>_resp\<close>, \<^verbatim>\<open>_qsp\<close> and
  \<^verbatim>\<open>_get_param\<close> lose their leading underscore, and \<^verbatim>\<open>_headers\<close> becomes \<open>cors_headers\<close>
  beside the field \<open>headers\<close> of a response.
\<close>

definition cors_headers :: "(string \<times> string) list" where
  "cors_headers =
     [(''Content-Type'', ''application/json''),
      (''Access-Control-Allow-Origin'', ''*''),
      (''Access-Control-Allow-Headers'', ''Content-Type''),
      (''Access-Control-Allow-Methods'', ''GET,OPTIONS'')]"

definition resp :: "int \<Rightarrow> json \<Rightarrow> response" where
  "resp status_code payload =
     \<lparr>statusCode = status_code, headers = cors_headers, body = json_dumps payload\<rparr>"

definition qsp :: "json \<Rightarrow> error + json" where
  "qsp event =
     (case dict_get (py_or event (JObj [])) ''queryStringParameters'' of
        Inl e \<Rightarrow> Inl e
      | Inr q \<Rightarrow> Inr (py_or q (JObj [])))"

fun is_dict :: "json \<Rightarrow> bool" where
  "is_dict (JObj kvs) = True"
| "is_dict _ = False"

definition get_param :: "json \<Rightarrow> string \<Rightarrow> string \<Rightarrow> error + string" where
  "get_param event name dflt =
     (if is_dict event \<and> dict_get event name \<noteq> Inr JNull
      then (case dict_get event name of Inl e \<Rightarrow> Inl e | Inr v \<Rightarrow> Inr (py_str v))
      else (case qsp event of
          Inl e \<Rightarrow> Inl e
        | Inr q \<Rightarrow>
            (case dict_get q name of
               Inl e \<Rightarrow> Inl e
             | Inr v \<Rightarrow> if v \<noteq> JNull then Inr (py_str v) else Inr dflt)))"

text \<open>Lines 76 to 83: the provider request.\<close>

definition request_body :: "string \<Rightarrow> string \<Rightarrow> string \<Rightarrow> string \<Rightarrow> json" where
  "request_body prompt negative_prompt output_format aspect_ratio =
     JObj [(''prompt'', JStr prompt),
           (''negative_prompt'', JStr negative_prompt),
           (''mode'', JStr ''text-to-image''),
           (''seed'', JInt 0),
           (''output_format'', JStr output_format),
           (''aspect_ratio'', JStr aspect_ratio)]"

text \<open>
  Lines 95 to 100: the encoded image of a provider response. \<open>Inr None\<close> is the \<^verbatim>\<open>else\<close>
  branch, which answers 502.
\<close>

definition shape_present :: "json \<Rightarrow> string \<Rightarrow> error + bool" where
  "shape_present data k =
     (case py_in k data of
        Inl e \<Rightarrow> Inl e
      | Inr False \<Rightarrow> Inr False
      | Inr True \<Rightarrow> (case getitem_key data k of Inl e \<Rightarrow> Inl e | Inr v \<Rightarrow> Inr (truthy v)))"

definition extract_image :: "json \<Rightarrow> error + json option" where
  "extract_image data =
     (case shape_present data ''images'' of
        Inl e \<Rightarrow> Inl e
      | Inr True \<Rightarrow>
          (case getitem_key data ''images'' of
             Inl e \<Rightarrow> Inl e
           | Inr images \<Rightarrow> (case getitem0 images of Inl e \<Rightarrow> Inl e | Inr x \<Rightarrow> Inr (Some x)))
      | Inr False \<Rightarrow>
          (case shape_present data ''artifacts'' of
             Inl e \<Rightarrow> Inl e
           | Inr True \<Rightarrow>
               (case getitem_key data ''artifacts'' of
                  Inl e \<Rightarrow> Inl e
                | Inr artifacts \<Rightarrow>
                    (case getitem0 artifacts of
                       Inl e \<Rightarrow> Inl e
                     | Inr a \<Rightarrow>
                         (case dict_get a ''base64'' of Inl e \<Rightarrow> Inl e | Inr x \<Rightarrow> Inr (Some x))))
           | Inr False \<Rightarrow> Inr None))"

text \<open>
  Lines 105 to 142: the key, the upload, the signed address, the two lines printed and the
  answer, whose headers the source writes out again (lines 131 to 142). The plain address
  of line 125 is computed and not used.
\<close>

definition key_prefix :: "config \<Rightarrow> string" where
  "key_prefix c = (if suffix ''/'' (KEY_PREFIX c) then KEY_PREFIX c else KEY_PREFIX c @ ''/'')"

definition object_key :: "world \<Rightarrow> string \<Rightarrow> string" where
  "object_key w output_format =
     key_prefix (cfg w) @ strftime (utcnow w) @ ''-'' @ uuid_hex (uuid4 w) @ ''.'' @ output_format"

definition object_url :: "config \<Rightarrow> string \<Rightarrow> string" where
  "object_url c key =
     ''https://'' @ BUCKET_NAME c @ ''.s3.'' @ S3_REGION @ ''.amazonaws.com/'' @ key"

definition answer :: "string \<Rightarrow> response" where
  "answer presigned_url =
     \<lparr>statusCode = 200,
      headers =
        [(''Content-Type'', ''application/json''),
         (''Access-Control-Allow-Origin'', ''*''),
         (''Access-Control-Allow-Headers'', ''Content-Type''),
         (''Access-Control-Allow-Methods'', ''GET,OPTIONS'')],
      body = json_dumps (JObj [(''presigned_url'', JStr presigned_url)])\<rparr>"

definition debug_lines :: "string \<Rightarrow> call list" where
  "debug_lines presigned_url =
     [Print (''PRESIGNED_HAS_X_AMZ: ''
             @ (if sublist ''X-Amz-Algorithm='' presigned_url then ''True'' else ''False'')),
      Print (''FULL_PRESIGNED_URL: '' @ presigned_url)]"

definition store :: "world \<Rightarrow> string \<Rightarrow> byte list \<Rightarrow> run" where
  "store w output_format image_bytes =
     (let key = object_key w output_format;
          content_type = ''image/'' @ output_format;
          put = PutObject (BUCKET_NAME (cfg w)) key image_bytes content_type;
          sign = GeneratePresignedUrl ''get_object'' (BUCKET_NAME (cfg w)) key
                   (URL_EXPIRES_SECONDS (cfg w)) ''GET'';
          plain = object_url (cfg w) key
      in (case put_object w (BUCKET_NAME (cfg w)) key image_bytes content_type of
            Inl e \<Rightarrow> ([put], Inl e)
          | Inr done \<Rightarrow>
              (case generate_presigned_url w ''get_object'' (BUCKET_NAME (cfg w)) key
                      (URL_EXPIRES_SECONDS (cfg w)) ''GET'' of
                 Inl e \<Rightarrow> ([put, sign], Inl e)
               | Inr presigned_url \<Rightarrow>
                   ([put, sign] @ debug_lines presigned_url, Inr (answer presigned_url)))))"

text \<open>Lines 75 to 102, and then \<open>store\<close>: the provider call and what is made of its answer.\<close>

definition generate :: "world \<Rightarrow> string \<Rightarrow> string \<Rightarrow> string \<Rightarrow> string \<Rightarrow> run" where
  "generate w prompt negative_prompt aspect_ratio output_format =
     (let payload = json_dumps (request_body prompt negative_prompt output_format aspect_ratio);
          invoke = InvokeModel (MODEL_ID (cfg w)) ''application/json'' ''application/json'' payload
      in case invoke_model w (MODEL_ID (cfg w)) ''application/json'' ''application/json'' payload of
           Inl e \<Rightarrow> ([invoke], Inl e)
         | Inr data \<Rightarrow>
             (case extract_image data of
                Inl e \<Rightarrow> ([invoke], Inl e)
              | Inr None \<Rightarrow>
                  ([invoke],
                   Inr (resp 502 (JObj [(''error'', JStr ''No image in Bedrock response''),
                                        (''raw'', data)])))
              | Inr (Some image_b64) \<Rightarrow>
                  (case b64decode image_b64 of
                     Inl e \<Rightarrow> ([invoke], Inl e)
                   | Inr image_bytes \<Rightarrow>
                       (case store w output_format image_bytes of
                          (tr, r) \<Rightarrow> (invoke # tr, r)))))"

text \<open>The handler: lines 62 to 73, and then \<open>generate\<close>.\<close>

definition lambda_handler :: "world \<Rightarrow> json \<Rightarrow> run" where
  "lambda_handler w event =
     (case dict_get (py_or event (JObj [])) ''httpMethod'' of
        Inl e \<Rightarrow> ([], Inl e)
      | Inr m \<Rightarrow>
          if m = JStr ''OPTIONS''
          then ([], Inr \<lparr>statusCode = 200, headers = cors_headers,
                         body = json_dumps (JObj [(''ok'', JBool True)])\<rparr>)
          else
            (case get_param event ''prompt'' [] of
               Inl e \<Rightarrow> ([], Inl e)
             | Inr p \<Rightarrow>
                 if strip p = []
                 then ([], Inr (resp 400 (JObj [(''error'',
                                                 JStr ''Missing required parameter: prompt'')])))
                 else
                   (case get_param event ''negative_prompt'' [] of
                      Inl e \<Rightarrow> ([], Inl e)
                    | Inr n \<Rightarrow>
                        (case get_param event ''aspect_ratio'' ''1:1'' of
                           Inl e \<Rightarrow> ([], Inl e)
                         | Inr a \<Rightarrow>
                             (case get_param event ''output_format'' ''png'' of
                                Inl e \<Rightarrow> ([], Inl e)
                              | Inr f \<Rightarrow>
                                  generate w (strip p) (strip n) (strip a) (strip f))))))"

section \<open>Requests, responses and runs, as the specification speaks of them\<close>

text \<open>
  A request gives a parameter in its direct field map or among its query-string
  parameters. A parameter bound to \<^verbatim>\<open>None\<close> counts as not given: that is the test the
  source makes (\<^verbatim>\<open>get(name) is not None\<close>).
\<close>

definition direct_value :: "json \<Rightarrow> string \<Rightarrow> json option" where
  "direct_value event name = (case event of JObj kvs \<Rightarrow> map_of kvs name | _ \<Rightarrow> None)"

definition query_value :: "json \<Rightarrow> string \<Rightarrow> json option" where
  "query_value event name =
     (case direct_value event ''queryStringParameters'' of
        Some (JObj q) \<Rightarrow> map_of q name
      | _ \<Rightarrow> None)"

definition unset :: "json option \<Rightarrow> bool" where
  "unset x \<longleftrightarrow> x = None \<or> x = Some JNull"

definition blank_text :: "json option \<Rightarrow> bool" where
  "blank_text x \<longleftrightarrow> (case x of Some (JStr s) \<Rightarrow> list_all py_isspace s | _ \<Rightarrow> False)"

definition param_missing :: "json \<Rightarrow> string \<Rightarrow> bool" where
  "param_missing event name \<longleftrightarrow>
     unset (direct_value event name) \<and> unset (query_value event name)"

definition param_blank :: "json \<Rightarrow> string \<Rightarrow> bool" where
  "param_blank event name \<longleftrightarrow>
     blank_text (direct_value event name)
     \<or> (unset (direct_value event name) \<and> blank_text (query_value event name))"

text \<open>The value a request gives for a parameter: the direct map's, else the query string's.\<close>

definition given :: "json \<Rightarrow> string \<Rightarrow> json option" where
  "given event name =
     (if \<not> unset (direct_value event name) then direct_value event name
      else if \<not> unset (query_value event name) then query_value event name
      else None)"

text \<open>
  The events the handler is written for: a map, or nothing (anything \<^verbatim>\<open>event or {}\<close> turns
  into the empty map), whose \<^verbatim>\<open>queryStringParameters\<close>, if any, are again a map or nothing.
\<close>

definition request_shaped :: "json \<Rightarrow> bool" where
  "request_shaped event \<longleftrightarrow>
     (truthy event \<longrightarrow> is_dict event)
     \<and> (case direct_value event ''queryStringParameters'' of
          None \<Rightarrow> True
        | Some q \<Rightarrow> truthy q \<longrightarrow> is_dict q)"

definition preflight :: "json \<Rightarrow> bool" where
  "preflight event \<longleftrightarrow> direct_value event ''httpMethod'' = Some (JStr ''OPTIONS'')"

text \<open>
  A request that passes lines 64 to 73 reaches the provider with the four stripped
  parameters.
\<close>

definition stripped :: "error + string \<Rightarrow> string \<Rightarrow> bool" where
  "stripped r s \<longleftrightarrow> (case r of Inl e \<Rightarrow> False | Inr x \<Rightarrow> strip x = s)"

definition asks_provider :: "json \<Rightarrow> string \<Rightarrow> string \<Rightarrow> string \<Rightarrow> string \<Rightarrow> bool" where
  "asks_provider event prompt negative_prompt aspect_ratio output_format \<longleftrightarrow>
     (case dict_get (py_or event (JObj [])) ''httpMethod'' of
        Inl e \<Rightarrow> False
      | Inr m \<Rightarrow> m \<noteq> JStr ''OPTIONS'')
     \<and> stripped (get_param event ''prompt'' []) prompt
     \<and> prompt \<noteq> []
     \<and> stripped (get_param event ''negative_prompt'' []) negative_prompt
     \<and> stripped (get_param event ''aspect_ratio'' ''1:1'') aspect_ratio
     \<and> stripped (get_param event ''output_format'' ''png'') output_format"

definition provider_call :: "world \<Rightarrow> string \<Rightarrow> string \<Rightarrow> string \<Rightarrow> string \<Rightarrow> call" where
  "provider_call w prompt negative_prompt aspect_ratio output_format =
     InvokeModel (MODEL_ID (cfg w)) ''application/json'' ''application/json''
       (json_dumps (request_body prompt negative_prompt output_format aspect_ratio))"

definition provider_answer ::
    "world \<Rightarrow> string \<Rightarrow> string \<Rightarrow> string \<Rightarrow> string \<Rightarrow> error + json" where
  "provider_answer w prompt negative_prompt aspect_ratio output_format =
     invoke_model w (MODEL_ID (cfg w)) ''application/json'' ''application/json''
       (json_dumps (request_body prompt negative_prompt output_format aspect_ratio))"

text \<open>A field of a provider response that is absent or empty.\<close>

definition absent_or_empty :: "json option \<Rightarrow> bool" where
  "absent_or_empty x \<longleftrightarrow> (case x of None \<Rightarrow> True | Some v \<Rightarrow> \<not> truthy v)"

text \<open>The bytes and the keys of the uploads in a trace.\<close>

fun uploads :: "call list \<Rightarrow> byte list list" where
  "uploads [] = []"
| "uploads (PutObject b k d c # tr) = d # uploads tr"
| "uploads (x # tr) = uploads tr"

fun stored_keys :: "call list \<Rightarrow> string list" where
  "stored_keys [] = []"
| "stored_keys (PutObject b k d c # tr) = k # stored_keys tr"
| "stored_keys (x # tr) = stored_keys tr"

text \<open>A clock reading within the range of \<^verbatim>\<open>datetime\<close>, in a year of four digits.\<close>

definition clock_ok :: "datetime \<Rightarrow> bool" where
  "clock_ok t \<longleftrightarrow>
     1000 \<le> dt_year t \<and> dt_year t \<le> 9999 \<and> 1 \<le> dt_month t \<and> dt_month t \<le> 12
     \<and> 1 \<le> dt_day t \<and> dt_day t \<le> 31 \<and> dt_hour t < 24 \<and> dt_minute t < 60 \<and> dt_second t < 60"

subsection \<open>Example worlds\<close>

text \<open>
  A world in which the provider answers \<open>data\<close>, the store accepts every upload and signs
  every address, at a fixed instant and with a fixed identifier.
\<close>

definition example_config :: config where
  "example_config =
     \<lparr>MODEL_ID = ''stability.sd3-5-large-v1:0'', BUCKET_NAME = ''posters'',
      KEY_PREFIX = ''generated'', URL_EXPIRES_SECONDS = 3600\<rparr>"

definition example_world :: "json \<Rightarrow> world" where
  "example_world data =
     \<lparr>cfg = example_config,
      invoke_model = (\<lambda>model_id content_type accept payload. Inr data),
      put_object = (\<lambda>bucket key bytes content_type. Inr ()),
      generate_presigned_url =
        (\<lambda>client_method bucket key expires http_method.
           Inr (''https://'' @ bucket @ ''.s3.us-east-2.amazonaws.com/'' @ key
                @ ''?X-Amz-Algorithm=AWS4-HMAC-SHA256&X-Amz-Expires='' @ dec_int expires)),
      utcnow = \<lparr>dt_year = 2026, dt_month = 3, dt_day = 7,
                dt_hour = 14, dt_minute = 5, dt_second = 9\<rparr>,
      uuid4 = 0x9f1c2d3e4a5b4c6d8e7f0123456789ab\<rparr>"

section \<open>Parameters\<close>

lemma strip_Nil_iff: "strip s = [] \<longleftrightarrow> list_all py_isspace s"
proof -
  have a: "dropWhile py_isspace s = [] \<longleftrightarrow> list_all py_isspace s"
    by (simp add: list_all_iff)
  have b: "dropWhile py_isspace (rev (dropWhile py_isspace s)) = []
             \<longleftrightarrow> dropWhile py_isspace s = []"
  proof (cases "dropWhile py_isspace s")
    case Nil
    show ?thesis unfolding Nil by simp
  next
    case (Cons x xs)
    then have "\<not> py_isspace x" using hd_dropWhile [of py_isspace s] by auto
    then show ?thesis unfolding Cons by auto
  qed
  show ?thesis unfolding strip_def rev_is_Nil_conv b a ..
qed

lemma is_dict_iff: "is_dict v \<longleftrightarrow> (\<exists>kvs. v = JObj kvs)"
  by (cases v) simp_all

lemma shaped_get:
  "request_shaped event \<Longrightarrow>
   dict_get (py_or event (JObj [])) k
     = Inr (case direct_value event k of None \<Rightarrow> JNull | Some v \<Rightarrow> v)"
  by (cases event) (auto simp: request_shaped_def py_or_def direct_value_def)

lemma get_param_direct:
  "direct_value event name = Some v \<Longrightarrow> v \<noteq> JNull \<Longrightarrow> get_param event name d = Inr (py_str v)"
  by (cases event) (auto simp: direct_value_def get_param_def)

lemma shaped_qsp:
  assumes "request_shaped event"
  shows "\<exists>q. qsp event = Inr (JObj q) \<and> (\<forall>name. query_value event name = map_of q name)"
proof (cases "direct_value event ''queryStringParameters''")
  case None
  with assms have "qsp event = Inr (JObj [])"
    by (cases event) (auto simp: request_shaped_def py_or_def direct_value_def qsp_def)
  moreover from None have "\<forall>name. query_value event name = map_of [] name"
    by (simp add: query_value_def)
  ultimately show ?thesis by blast
next
  case (Some v)
  then obtain kvs where ev: "event = JObj kvs"
    and v: "map_of kvs ''queryStringParameters'' = Some v"
    by (cases event) (auto simp: direct_value_def)
  from v have ne: "kvs \<noteq> []" by auto
  show ?thesis
  proof (cases "truthy v")
    case True
    with assms Some obtain q where q: "v = JObj q"
      by (auto simp: request_shaped_def is_dict_iff)
    with True ev v ne have "qsp event = Inr (JObj q)"
      by (simp add: qsp_def py_or_def)
    moreover from Some q have "\<forall>name. query_value event name = map_of q name"
      by (simp add: query_value_def)
    ultimately show ?thesis by blast
  next
    case False
    with ev v ne have "qsp event = Inr (JObj [])"
      by (simp add: qsp_def py_or_def)
    moreover from False Some have "\<forall>name. query_value event name = map_of [] name"
      by (cases v) (auto simp: query_value_def)
    ultimately show ?thesis by blast
  qed
qed

lemma get_param_query:
  assumes "request_shaped event" and "unset (direct_value event name)"
  shows "get_param event name d =
           Inr (case query_value event name of
                  None \<Rightarrow> d
                | Some v \<Rightarrow> if v = JNull then d else py_str v)"
proof -
  obtain q where q: "qsp event = Inr (JObj q)" "\<And>n. query_value event n = map_of q n"
    using shaped_qsp [OF assms(1)] by blast
  have "\<not> (is_dict event \<and> dict_get event name \<noteq> Inr JNull)"
    using assms(2) by (cases event) (auto simp: unset_def direct_value_def split: option.splits)
  then have "get_param event name d =
      (case dict_get (JObj q) name of
         Inl e \<Rightarrow> Inl e
       | Inr v \<Rightarrow> if v \<noteq> JNull then Inr (py_str v) else Inr d)"
    unfolding get_param_def q by (simp only: if_False sum.case)
  then show ?thesis
    by (simp add: q split: option.splits)
qed

text \<open>
  C9. A parameter that the direct field map binds to a value other than \<^verbatim>\<open>None\<close> is taken
  from there, whatever the query string holds. The query string decides only when the
  direct map has no such value: then its value is taken, and the default when it has none
  either.
\<close>

theorem direct_map_takes_precedence:
  "(direct_value event name = Some v \<and> v \<noteq> JNull \<longrightarrow> get_param event name d = Inr (py_str v))
   \<and> (request_shaped event \<and> unset (direct_value event name) \<longrightarrow>
        get_param event name d =
          Inr (case query_value event name of
                 None \<Rightarrow> d
               | Some u \<Rightarrow> if u = JNull then d else py_str u))"
  using get_param_direct [of event name v d] get_param_query [of event name d] by blast

theorem direct_map_takes_precedence_witness:
  "get_param (JObj [(''prompt'', JStr ''a red fox''),
                    (''queryStringParameters'', JObj [(''prompt'', JStr ''a blue whale'')])])
     ''prompt'' [] = Inr ''a red fox''
   \<and> get_param (JObj [(''queryStringParameters'', JObj [(''prompt'', JStr ''a blue whale'')])])
       ''prompt'' [] = Inr ''a blue whale''"
proof -
  have a: "direct_value (JObj [(''prompt'', JStr ''a red fox''),
             (''queryStringParameters'', JObj [(''prompt'', JStr ''a blue whale'')])]) ''prompt''
           = Some (JStr ''a red fox'') \<and> JStr ''a red fox'' \<noteq> JNull"
    by (simp add: direct_value_def)
  have b: "request_shaped
             (JObj [(''queryStringParameters'', JObj [(''prompt'', JStr ''a blue whale'')])])
           \<and> unset (direct_value
               (JObj [(''queryStringParameters'', JObj [(''prompt'', JStr ''a blue whale'')])])
               ''prompt'')"
    by (simp add: request_shaped_def direct_value_def unset_def)
  have c: "query_value
             (JObj [(''queryStringParameters'', JObj [(''prompt'', JStr ''a blue whale'')])])
             ''prompt'' = Some (JStr ''a blue whale'')"
    by (simp add: query_value_def direct_value_def)
  from a b c
    direct_map_takes_precedence [of
      "JObj [(''prompt'', JStr ''a red fox''),
             (''queryStringParameters'', JObj [(''prompt'', JStr ''a blue whale'')])]"
      "''prompt''" "JStr ''a red fox''" "[]"]
    direct_map_takes_precedence [of
      "JObj [(''queryStringParameters'', JObj [(''prompt'', JStr ''a blue whale'')])]"
      "''prompt''" JNull "[]"]
  show ?thesis by simp
qed

section \<open>The answers that need no backend\<close>

lemma dumps_ok: \<open>json_dumps (JObj [(''ok'', JBool True)]) = ''{"ok": true}''\<close>
  by (simp add: json_string_def json_escape_char_def)

lemma dumps_missing:
  \<open>json_dumps (JObj [(''error'', JStr ''Missing required parameter: prompt'')])
     = ''{"error": "Missing required parameter: prompt"}''\<close>
  by (simp add: json_string_def json_escape_char_def)

lemma preflight_method:
  "preflight event \<Longrightarrow> dict_get (py_or event (JObj [])) ''httpMethod'' = Inr (JStr ''OPTIONS'')"
  by (cases event) (auto simp: preflight_def direct_value_def py_or_def)

text \<open>
  C4. A request whose \<^verbatim>\<open>httpMethod\<close> is \<^verbatim>\<open>OPTIONS\<close> is answered 200 with the body
  \<^verbatim>\<open>{"ok": true}\<close>, whatever else it holds and whatever the world is, and the trace of
  the run is empty: no backend is called.
\<close>

theorem options_preflight:
  \<open>preflight event \<Longrightarrow>
   lambda_handler w event =
     ([], Inr \<lparr>statusCode = 200,
              headers = [(''Content-Type'', ''application/json''),
                         (''Access-Control-Allow-Origin'', ''*''),
                         (''Access-Control-Allow-Headers'', ''Content-Type''),
                         (''Access-Control-Allow-Methods'', ''GET,OPTIONS'')],
              body = ''{"ok": true}''\<rparr>)\<close>
  by (simp add: lambda_handler_def preflight_method dumps_ok cors_headers_def
           del: json_dumps.simps)

theorem options_preflight_witness:
  \<open>preflight (JObj [(''httpMethod'', JStr ''OPTIONS''), (''prompt'', JStr []),
                     (''queryStringParameters'', JStr ''junk'')])
   \<and> lambda_handler (example_world (JObj []))
        (JObj [(''httpMethod'', JStr ''OPTIONS''), (''prompt'', JStr []),
               (''queryStringParameters'', JStr ''junk'')]) =
     ([], Inr \<lparr>statusCode = 200,
              headers = [(''Content-Type'', ''application/json''),
                         (''Access-Control-Allow-Origin'', ''*''),
                         (''Access-Control-Allow-Headers'', ''Content-Type''),
                         (''Access-Control-Allow-Methods'', ''GET,OPTIONS'')],
              body = ''{"ok": true}''\<rparr>)\<close>
proof -
  have h: "preflight (JObj [(''httpMethod'', JStr ''OPTIONS''), (''prompt'', JStr []),
                            (''queryStringParameters'', JStr ''junk'')])"
    by (simp add: preflight_def direct_value_def)
  from h options_preflight [OF h, of "example_world (JObj [])"] show ?thesis by simp
qed

lemma not_preflight_method:
  assumes "request_shaped event" and "\<not> preflight event"
  shows "\<exists>m. dict_get (py_or event (JObj [])) ''httpMethod'' = Inr m \<and> m \<noteq> JStr ''OPTIONS''"
  using assms shaped_get [of event "''httpMethod''"]
  by (auto simp: preflight_def split: option.splits)

lemma blank_param_get:
  assumes "request_shaped event" and "param_missing event name \<or> param_blank event name"
  shows "\<exists>p. get_param event name [] = Inr p \<and> strip p = []"
proof -
  consider (missing) "unset (direct_value event name)" "unset (query_value event name)"
    | (direct) s where "direct_value event name = Some (JStr s)" "list_all py_isspace s"
    | (query) s where "unset (direct_value event name)"
        "query_value event name = Some (JStr s)" "list_all py_isspace s"
    using assms(2)
    by (auto simp: param_missing_def param_blank_def blank_text_def
             split: option.splits json.splits)
  then show ?thesis
  proof cases
    case missing
    from get_param_query [OF assms(1) missing(1), of "[]"] missing(2) show ?thesis
      by (auto simp: unset_def strip_def)
  next
    case direct
    from get_param_direct [OF direct(1), of "[]"] direct(2) show ?thesis
      by (simp add: strip_Nil_iff)
  next
    case query
    from get_param_query [OF assms(1) query(1), of "[]"] query(2,3) show ?thesis
      by (simp add: strip_Nil_iff)
  qed
qed

text \<open>
  C1. A request that is not a preflight and whose \<^verbatim>\<open>prompt\<close> is missing, empty or made of
  white space only is answered 400 with the body
  \<^verbatim>\<open>{"error": "Missing required parameter: prompt"}\<close>, and the trace of the run is empty:
  neither the provider nor the store is called. The prompt is the direct map's value, or
  the query string's when the direct map has none.
\<close>

theorem blank_prompt_rejected:
  \<open>request_shaped event \<Longrightarrow> \<not> preflight event \<Longrightarrow>
   param_missing event ''prompt'' \<or> param_blank event ''prompt'' \<Longrightarrow>
   lambda_handler w event =
     ([], Inr \<lparr>statusCode = 400,
              headers = [(''Content-Type'', ''application/json''),
                         (''Access-Control-Allow-Origin'', ''*''),
                         (''Access-Control-Allow-Headers'', ''Content-Type''),
                         (''Access-Control-Allow-Methods'', ''GET,OPTIONS'')],
              body = ''{"error": "Missing required parameter: prompt"}''\<rparr>)\<close>
proof -
  assume shaped: "request_shaped event" and np: "\<not> preflight event"
    and blank: "param_missing event ''prompt'' \<or> param_blank event ''prompt''"
  obtain m where m: "dict_get (py_or event (JObj [])) ''httpMethod'' = Inr m"
      "m \<noteq> JStr ''OPTIONS''"
    using not_preflight_method [OF shaped np] by blast
  obtain p where p: "get_param event ''prompt'' [] = Inr p" "strip p = []"
    using blank_param_get [OF shaped blank] by blast
  show ?thesis
    by (simp add: lambda_handler_def m p resp_def cors_headers_def dumps_missing
             del: json_dumps.simps)
qed

theorem blank_prompt_rejected_witness:
  \<open>request_shaped (JObj [(''httpMethod'', JStr ''GET''),
      (''queryStringParameters'', JObj [(''prompt'', JStr [CHR 0x20, CHR 0x09])])])
   \<and> param_blank (JObj [(''httpMethod'', JStr ''GET''),
      (''queryStringParameters'', JObj [(''prompt'', JStr [CHR 0x20, CHR 0x09])])]) ''prompt''
   \<and> lambda_handler (example_world (JObj [(''images'', JList [JStr ''QUJD''])]))
        (JObj [(''httpMethod'', JStr ''GET''),
               (''queryStringParameters'', JObj [(''prompt'', JStr [CHR 0x20, CHR 0x09])])]) =
     ([], Inr \<lparr>statusCode = 400,
              headers = [(''Content-Type'', ''application/json''),
                         (''Access-Control-Allow-Origin'', ''*''),
                         (''Access-Control-Allow-Headers'', ''Content-Type''),
                         (''Access-Control-Allow-Methods'', ''GET,OPTIONS'')],
              body = ''{"error": "Missing required parameter: prompt"}''\<rparr>)\<close>
proof -
  let ?e = "JObj [(''httpMethod'', JStr ''GET''),
                  (''queryStringParameters'', JObj [(''prompt'', JStr [CHR 0x20, CHR 0x09])])]"
  have a: "request_shaped ?e"
    by (simp add: request_shaped_def direct_value_def)
  have b: "\<not> preflight ?e"
    by (simp add: preflight_def direct_value_def)
  have c: "param_blank ?e ''prompt''"
    by (simp add: param_blank_def blank_text_def unset_def direct_value_def query_value_def
                  py_isspace_def)
  from a c
    blank_prompt_rejected [OF a b disjI2 [OF c],
      of "example_world (JObj [(''images'', JList [JStr ''QUJD''])])"]
  show ?thesis by simp
qed

section \<open>Headers\<close>

lemma store_headers: "snd (store w f bs) = Inr r \<Longrightarrow> headers r = cors_headers"
  by (auto simp: store_def Let_def answer_def cors_headers_def split: sum.splits)

lemma generate_headers: "generate w p n a f = (tr, Inr r) \<Longrightarrow> headers r = cors_headers"
  by (auto simp: generate_def Let_def resp_def case_prod_beta
           split: sum.splits option.splits dest: store_headers)

lemma handler_headers: "lambda_handler w event = (tr, Inr r) \<Longrightarrow> headers r = cors_headers"
  by (auto simp: lambda_handler_def resp_def split: sum.splits if_splits dest: generate_headers)

text \<open>
  C7. Every response the handler returns, on any of its paths (preflight, 400, 502 and
  success), has exactly the four headers \<^verbatim>\<open>Content-Type: application/json\<close>,
  \<^verbatim>\<open>Access-Control-Allow-Origin: *\<close>, \<^verbatim>\<open>Access-Control-Allow-Headers: Content-Type\<close> and
  \<^verbatim>\<open>Access-Control-Allow-Methods: GET,OPTIONS\<close>.
\<close>

theorem every_response_headers:
  "lambda_handler w event = (tr, Inr r) \<Longrightarrow>
   headers r = [(''Content-Type'', ''application/json''),
                (''Access-Control-Allow-Origin'', ''*''),
                (''Access-Control-Allow-Headers'', ''Content-Type''),
                (''Access-Control-Allow-Methods'', ''GET,OPTIONS'')]"
  using handler_headers [of w event tr r] by (simp add: cors_headers_def)

theorem every_response_headers_witness:
  "snd (lambda_handler (example_world (JObj [(''images'', JList [JStr ''QUJD''])]))
          (JObj [(''prompt'', JStr ''a red fox'')]))
     = Inr (answer ''https://posters.s3.us-east-2.amazonaws.com/generated/20260307T140509Z-9f1c2d3e4a5b4c6d8e7f0123456789ab.png?X-Amz-Algorithm=AWS4-HMAC-SHA256&X-Amz-Expires=3600'')
   \<and> headers (answer ''https://posters.s3.us-east-2.amazonaws.com/generated/20260307T140509Z-9f1c2d3e4a5b4c6d8e7f0123456789ab.png?X-Amz-Algorithm=AWS4-HMAC-SHA256&X-Amz-Expires=3600'')
     = [(''Content-Type'', ''application/json''),
        (''Access-Control-Allow-Origin'', ''*''),
        (''Access-Control-Allow-Headers'', ''Content-Type''),
        (''Access-Control-Allow-Methods'', ''GET,OPTIONS'')]"
proof -
  let ?run = "lambda_handler (example_world (JObj [(''images'', JList [JStr ''QUJD''])]))
                (JObj [(''prompt'', JStr ''a red fox'')])"
  let ?r = "answer ''https://posters.s3.us-east-2.amazonaws.com/generated/20260307T140509Z-9f1c2d3e4a5b4c6d8e7f0123456789ab.png?X-Amz-Algorithm=AWS4-HMAC-SHA256&X-Amz-Expires=3600''"
  have a: "snd ?run = Inr ?r"
    by code_simp
  then have b: "?run = (fst ?run, Inr ?r)"
    by (simp add: prod_eq_iff)
  from a every_response_headers [OF b] show ?thesis by simp
qed

section \<open>The provider's answer\<close>

lemma handler_generate:
  assumes "asks_provider event p n a f"
  shows "lambda_handler w event = generate w p n a f"
  using assms
  by (auto simp: asks_provider_def stripped_def lambda_handler_def split: sum.splits)

lemma shape_present_obj:
  "shape_present (JObj kvs) k = Inr (\<not> absent_or_empty (map_of kvs k))"
  by (auto simp: shape_present_def absent_or_empty_def split: option.splits sum.splits bool.splits)

lemma extract_none:
  assumes "absent_or_empty (map_of kvs ''images'')" and "absent_or_empty (map_of kvs ''artifacts'')"
  shows "extract_image (JObj kvs) = Inr None"
  using assms by (simp add: extract_image_def shape_present_obj)

lemma extract_images:
  assumes "map_of kvs ''images'' = Some (JList (img # rest))"
  shows "extract_image (JObj kvs) = Inr (Some img)"
  using assms by (simp add: extract_image_def shape_present_obj absent_or_empty_def)

lemma extract_artifacts:
  assumes "absent_or_empty (map_of kvs ''images'')"
    and "map_of kvs ''artifacts'' = Some (JList (JObj art # rest))"
    and "map_of art ''base64'' = Some img"
  shows "extract_image (JObj kvs) = Inr (Some img)"
  using assms by (simp add: extract_image_def shape_present_obj absent_or_empty_def)

lemma store_uploads: "uploads (fst (store w f bs)) = [bs]"
  by (simp add: store_def Let_def debug_lines_def split: sum.splits)

lemma generate_uploads:
  assumes "provider_answer w p n a f = Inr data" and "extract_image data = Inr (Some img)"
  shows "uploads (fst (generate w p n a f))
           = (case b64decode img of Inl e \<Rightarrow> [] | Inr bs \<Rightarrow> [bs])"
  using assms store_uploads [of w f]
  by (auto simp: generate_def provider_answer_def Let_def case_prod_beta split: sum.splits)

lemma generate_no_image:
  assumes "provider_answer w p n a f = Inr data" and "extract_image data = Inr None"
  shows "generate w p n a f =
           ([provider_call w p n a f],
            Inr (resp 502 (JObj [(''error'', JStr ''No image in Bedrock response''),
                                 (''raw'', data)])))"
  using assms by (simp add: generate_def provider_answer_def provider_call_def Let_def)

text \<open>
  C2, as the code has it. When the provider's answer is an object in which neither
  \<^verbatim>\<open>images\<close> nor \<^verbatim>\<open>artifacts\<close> is present with a non-empty value (the empty object among
  them), the handler answers 502 with the body made of \<^verbatim>\<open>error\<close>, equal to
  \<^verbatim>\<open>No image in Bedrock response\<close>, and \<^verbatim>\<open>raw\<close>, the provider's answer; the trace holds the
  provider call alone, so nothing is uploaded.
\<close>

theorem missing_image_gives_502:
  assumes "asks_provider event p n a f"
    and "provider_answer w p n a f = Inr (JObj kvs)"
    and "absent_or_empty (map_of kvs ''images'')"
    and "absent_or_empty (map_of kvs ''artifacts'')"
  shows "lambda_handler w event =
           ([InvokeModel (MODEL_ID (cfg w)) ''application/json'' ''application/json''
               (json_dumps (request_body p n f a))],
            Inr \<lparr>statusCode = 502,
                 headers = [(''Content-Type'', ''application/json''),
                            (''Access-Control-Allow-Origin'', ''*''),
                            (''Access-Control-Allow-Headers'', ''Content-Type''),
                            (''Access-Control-Allow-Methods'', ''GET,OPTIONS'')],
                 body = json_dumps (JObj [(''error'', JStr ''No image in Bedrock response''),
                                          (''raw'', JObj kvs)])\<rparr>)"
  unfolding handler_generate [OF assms(1)]
    generate_no_image [OF assms(2) extract_none [OF assms(3,4)]]
  by (simp add: provider_call_def resp_def cors_headers_def del: json_dumps.simps)

theorem missing_image_gives_502_witness:
  "lambda_handler (example_world (JObj [])) (JObj [(''prompt'', JStr ''a red fox'')]) =
     ([InvokeModel ''stability.sd3-5-large-v1:0'' ''application/json'' ''application/json''
         (json_dumps (request_body ''a red fox'' [] ''png'' ''1:1''))],
      Inr \<lparr>statusCode = 502,
           headers = [(''Content-Type'', ''application/json''),
                      (''Access-Control-Allow-Origin'', ''*''),
                      (''Access-Control-Allow-Headers'', ''Content-Type''),
                      (''Access-Control-Allow-Methods'', ''GET,OPTIONS'')],
           body = json_dumps (JObj [(''error'', JStr ''No image in Bedrock response''),
                                    (''raw'', JObj [])])\<rparr>)"
proof -
  have a: "asks_provider (JObj [(''prompt'', JStr ''a red fox'')]) ''a red fox'' [] ''1:1'' ''png''"
    by code_simp
  have b: "provider_answer (example_world (JObj [])) ''a red fox'' [] ''1:1'' ''png'' = Inr (JObj [])"
    by (simp add: provider_answer_def example_world_def)
  have c: "absent_or_empty (map_of [] ''images'')" "absent_or_empty (map_of [] ''artifacts'')"
    by (simp_all add: absent_or_empty_def)
  from missing_image_gives_502 [OF a b c] show ?thesis
    by (simp add: example_world_def example_config_def del: json_dumps.simps)
qed

text \<open>
  An answer whose \<^verbatim>\<open>artifacts\<close> list is not empty but whose first artifact has no
  \<^verbatim>\<open>base64\<close> field yields no image either. There \<^verbatim>\<open>get("base64")\<close> is \<^verbatim>\<open>None\<close>, which
  \<^verbatim>\<open>b64decode\<close> refuses with \<^verbatim>\<open>TypeError\<close>: the run ends in the exception, not in a 502.
\<close>

theorem artifact_without_image_counterexample:
  "lambda_handler (example_world (JObj [(''artifacts'', JList [JObj [(''finishReason'', JStr ''ERROR'')]])]))
     (JObj [(''prompt'', JStr ''a red fox'')]) =
     ([InvokeModel ''stability.sd3-5-large-v1:0'' ''application/json'' ''application/json''
         (json_dumps (request_body ''a red fox'' [] ''png'' ''1:1''))],
      Inl TypeError)"
  by code_simp

text \<open>
  C3. When the provider's answer has a non-empty \<^verbatim>\<open>images\<close> list, what is uploaded is the
  base64 decoding of its first element, whether or not \<^verbatim>\<open>artifacts\<close> is there too. When
  \<^verbatim>\<open>images\<close> is absent or empty and \<^verbatim>\<open>artifacts\<close> is a non-empty list whose first element
  has a \<^verbatim>\<open>base64\<close> field, what is uploaded is the decoding of that field. In both cases the
  decoded bytes are the only upload of the run, and nothing is uploaded when the decoding
  fails.
\<close>

theorem uploaded_bytes_are_decoded_image:
  assumes "asks_provider event p n a f"
    and "provider_answer w p n a f = Inr (JObj kvs)"
  shows "(map_of kvs ''images'' = Some (JList (img # rest)) \<longrightarrow>
            uploads (fst (lambda_handler w event))
              = (case b64decode img of Inl e \<Rightarrow> [] | Inr bs \<Rightarrow> [bs]))
       \<and> (absent_or_empty (map_of kvs ''images'')
            \<and> map_of kvs ''artifacts'' = Some (JList (JObj art # rest'))
            \<and> map_of art ''base64'' = Some img' \<longrightarrow>
            uploads (fst (lambda_handler w event))
              = (case b64decode img' of Inl e \<Rightarrow> [] | Inr bs \<Rightarrow> [bs]))"
  unfolding handler_generate [OF assms(1)]
  using generate_uploads [OF assms(2) extract_images, of img rest]
    generate_uploads [OF assms(2) extract_artifacts, of art rest' img']
  by blast

theorem uploaded_bytes_are_decoded_image_witness:
  "b64decode (JStr ''QUJD'') = Inr [0x41, 0x42, 0x43]
   \<and> uploads (fst (lambda_handler
         (example_world (JObj [(''images'', JList [JStr ''QUJD'']),
                               (''artifacts'', JList [JObj [(''base64'', JStr ''eHl6'')]])]))
         (JObj [(''prompt'', JStr ''a red fox'')]))) = [[0x41, 0x42, 0x43]]
   \<and> uploads (fst (lambda_handler
         (example_world (JObj [(''images'', JList []),
                               (''artifacts'', JList [JObj [(''base64'', JStr ''QUJD'')]])]))
         (JObj [(''prompt'', JStr ''a red fox'')]))) = [[0x41, 0x42, 0x43]]"
proof -
  let ?d1 = "[(''images'', JList [JStr ''QUJD'']),
              (''artifacts'', JList [JObj [(''base64'', JStr ''eHl6'')]])]"
  let ?d2 = "[(''images'', JList []),
              (''artifacts'', JList [JObj [(''base64'', JStr ''QUJD'')]])]"
  have a: "asks_provider (JObj [(''prompt'', JStr ''a red fox'')]) ''a red fox'' [] ''1:1'' ''png''"
    by code_simp
  have b1: "provider_answer (example_world (JObj ?d1)) ''a red fox'' [] ''1:1'' ''png''
              = Inr (JObj ?d1)"
    by (simp add: provider_answer_def example_world_def)
  have b2: "provider_answer (example_world (JObj ?d2)) ''a red fox'' [] ''1:1'' ''png''
              = Inr (JObj ?d2)"
    by (simp add: provider_answer_def example_world_def)
  have c1: "map_of ?d1 ''images'' = Some (JList (JStr ''QUJD'' # []))"
    by simp
  have c2: "absent_or_empty (map_of ?d2 ''images'')
            \<and> map_of ?d2 ''artifacts'' = Some (JList (JObj [(''base64'', JStr ''QUJD'')] # []))
            \<and> map_of [(''base64'', JStr ''QUJD'')] ''base64'' = Some (JStr ''QUJD'')"
    by (simp add: absent_or_empty_def)
  have d: "b64decode (JStr ''QUJD'') = Inr [0x41, 0x42, 0x43]"
    by code_simp
  from uploaded_bytes_are_decoded_image [OF a b1,
         of "JStr ''QUJD''" "[]" "[]" "[]" JNull] c1 d
  have e1: "uploads (fst (lambda_handler (example_world (JObj ?d1))
              (JObj [(''prompt'', JStr ''a red fox'')]))) = [[0x41, 0x42, 0x43]]"
    by simp
  from uploaded_bytes_are_decoded_image [OF a b2,
         of JNull "[]" "[(''base64'', JStr ''QUJD'')]" "[]" "JStr ''QUJD''"] c2 d
  have e2: "uploads (fst (lambda_handler (example_world (JObj ?d2))
              (JObj [(''prompt'', JStr ''a red fox'')]))) = [[0x41, 0x42, 0x43]]"
    by simp
  from d e1 e2 show ?thesis by simp
qed

section \<open>The provider request\<close>

lemma strip_default_ratio: "strip ''1:1'' = ''1:1''"
  by (simp add: strip_def py_isspace_def)

lemma strip_default_format: "strip ''png'' = ''png''"
  by (simp add: strip_def py_isspace_def)

lemma get_param_given:
  assumes "request_shaped event"
  shows "get_param event name d
           = Inr (case given event name of None \<Rightarrow> d | Some v \<Rightarrow> py_str v)"
proof (cases "unset (direct_value event name)")
  case True
  from get_param_query [OF assms True, of d] True show ?thesis
    by (auto simp: given_def unset_def split: option.splits)
next
  case False
  then obtain v where v: "direct_value event name = Some v" "v \<noteq> JNull"
    by (auto simp: unset_def)
  from get_param_direct [OF v, of d] False v show ?thesis
    by (simp add: given_def)
qed

lemma given_missing: "param_missing event name \<Longrightarrow> given event name = None"
  by (simp add: param_missing_def given_def)

lemma given_blank:
  "param_blank event name \<Longrightarrow> \<exists>s. given event name = Some (JStr s) \<and> list_all py_isspace s"
  by (auto simp: param_blank_def given_def blank_text_def unset_def
           split: option.splits json.splits)

lemma generate_first_call:
  "\<exists>rest. fst (generate w p n a f) = provider_call w p n a f # rest"
  by (auto simp: generate_def provider_call_def Let_def case_prod_beta
           split: sum.splits option.splits)

lemma shaped_asks_provider:
  assumes "request_shaped event" and "\<not> preflight event"
    and "get_param event ''prompt'' [] = Inr p" and "strip p \<noteq> []"
  shows "asks_provider event (strip p)
           (strip (case given event ''negative_prompt'' of None \<Rightarrow> [] | Some v \<Rightarrow> py_str v))
           (strip (case given event ''aspect_ratio'' of None \<Rightarrow> ''1:1'' | Some v \<Rightarrow> py_str v))
           (strip (case given event ''output_format'' of None \<Rightarrow> ''png'' | Some v \<Rightarrow> py_str v))"
proof -
  obtain m where m: "dict_get (py_or event (JObj [])) ''httpMethod'' = Inr m"
      "m \<noteq> JStr ''OPTIONS''"
    using not_preflight_method [OF assms(1,2)] by blast
  show ?thesis
    unfolding asks_provider_def get_param_given [OF assms(1)] m
    using assms(3,4) m(2) by (simp add: stripped_def get_param_given [OF assms(1)])
qed

lemma shaped_first_call:
  assumes "request_shaped event" and "\<not> preflight event"
    and "get_param event ''prompt'' [] = Inr p" and "strip p \<noteq> []"
  shows "\<exists>rest. fst (lambda_handler w event) =
           InvokeModel (MODEL_ID (cfg w)) ''application/json'' ''application/json''
             (json_dumps (request_body (strip p)
                (strip (case given event ''negative_prompt'' of None \<Rightarrow> [] | Some v \<Rightarrow> py_str v))
                (strip (case given event ''output_format'' of None \<Rightarrow> ''png'' | Some v \<Rightarrow> py_str v))
                (strip (case given event ''aspect_ratio'' of None \<Rightarrow> ''1:1'' | Some v \<Rightarrow> py_str v))))
           # rest"
  unfolding handler_generate [OF shaped_asks_provider [OF assms]]
  using generate_first_call [of w] by (simp add: provider_call_def del: json_dumps.simps)

text \<open>
  C6. A request that is not a preflight and has a valid prompt sends the provider, as the
  first thing it does, the JSON text of the object with the six fields \<^verbatim>\<open>prompt\<close>,
  \<^verbatim>\<open>negative_prompt\<close>, \<^verbatim>\<open>mode\<close>, \<^verbatim>\<open>seed\<close>, \<^verbatim>\<open>output_format\<close> and \<^verbatim>\<open>aspect_ratio\<close>. Its field
  \<^verbatim>\<open>aspect_ratio\<close> is \<^verbatim>\<open>1:1\<close> when the request gives no \<^verbatim>\<open>aspect_ratio\<close>, and its field
  \<^verbatim>\<open>output_format\<close> is \<^verbatim>\<open>png\<close> when the request gives no \<^verbatim>\<open>output_format\<close>, in the direct map
  or in the query string.
\<close>

theorem defaults_applied:
  assumes "request_shaped event" and "\<not> preflight event"
    and "get_param event ''prompt'' [] = Inr p" and "strip p \<noteq> []"
  shows "\<exists>n f a rest.
           fst (lambda_handler w event) =
             InvokeModel (MODEL_ID (cfg w)) ''application/json'' ''application/json''
               (json_dumps (JObj [(''prompt'', JStr (strip p)),
                                  (''negative_prompt'', JStr n),
                                  (''mode'', JStr ''text-to-image''),
                                  (''seed'', JInt 0),
                                  (''output_format'', JStr f),
                                  (''aspect_ratio'', JStr a)])) # rest
           \<and> (param_missing event ''aspect_ratio'' \<longrightarrow> a = ''1:1'')
           \<and> (param_missing event ''output_format'' \<longrightarrow> f = ''png'')"
proof -
  obtain rest where "fst (lambda_handler w event) =
      InvokeModel (MODEL_ID (cfg w)) ''application/json'' ''application/json''
        (json_dumps (JObj
           [(''prompt'', JStr (strip p)),
            (''negative_prompt'', JStr
               (strip (case given event ''negative_prompt'' of
                         None \<Rightarrow> [] | Some v \<Rightarrow> py_str v))),
            (''mode'', JStr ''text-to-image''),
            (''seed'', JInt 0),
            (''output_format'', JStr
               (strip (case given event ''output_format'' of
                         None \<Rightarrow> ''png'' | Some v \<Rightarrow> py_str v))),
            (''aspect_ratio'', JStr
               (strip (case given event ''aspect_ratio'' of
                         None \<Rightarrow> ''1:1'' | Some v \<Rightarrow> py_str v)))]))
      # rest"
    using shaped_first_call [OF assms, of w] unfolding request_body_def by blast
  moreover have "param_missing event ''aspect_ratio'' \<longrightarrow>
      strip (case given event ''aspect_ratio'' of None \<Rightarrow> ''1:1'' | Some v \<Rightarrow> py_str v) = ''1:1''"
    by (auto simp: strip_default_ratio dest: given_missing)
  moreover have "param_missing event ''output_format'' \<longrightarrow>
      strip (case given event ''output_format'' of None \<Rightarrow> ''png'' | Some v \<Rightarrow> py_str v) = ''png''"
    by (auto simp: strip_default_format dest: given_missing)
  ultimately show ?thesis by blast
qed

theorem defaults_applied_witness:
  \<open>fst (lambda_handler (example_world (JObj []))
          (JObj [(''httpMethod'', JStr ''GET''),
                 (''queryStringParameters'', JObj [(''prompt'', JStr ''a red fox'')])])) =
     [InvokeModel ''stability.sd3-5-large-v1:0'' ''application/json'' ''application/json''
        ''{"prompt": "a red fox", "negative_prompt": "", "mode": "text-to-image", "seed": 0, "output_format": "png", "aspect_ratio": "1:1"}'']\<close>
proof -
  let ?e = "JObj [(''httpMethod'', JStr ''GET''),
                  (''queryStringParameters'', JObj [(''prompt'', JStr ''a red fox'')])]"
  have a: "request_shaped ?e" by code_simp
  have b: "\<not> preflight ?e" by code_simp
  have c: "get_param ?e ''prompt'' [] = Inr ''a red fox''" by code_simp
  have d: "strip ''a red fox'' \<noteq> []" by code_simp
  have e: "param_missing ?e ''aspect_ratio''" "param_missing ?e ''output_format''"
    by code_simp+
  have g: \<open>fst (lambda_handler (example_world (JObj [])) ?e) =
     [InvokeModel ''stability.sd3-5-large-v1:0'' ''application/json'' ''application/json''
        ''{"prompt": "a red fox", "negative_prompt": "", "mode": "text-to-image", "seed": 0, "output_format": "png", "aspect_ratio": "1:1"}'']\<close>
    by code_simp
  from defaults_applied [OF a b c d, of "example_world (JObj [])"] e g show ?thesis
    by simp
qed

text \<open>
  C10. A request that is not a preflight and has a valid prompt sends the provider the JSON
  text of the object with the six fields of the source. When the request gives
  \<^verbatim>\<open>aspect_ratio\<close> as a string of white space only, the field \<^verbatim>\<open>aspect_ratio\<close> of that object
  is the empty string, not the default \<^verbatim>\<open>1:1\<close>; when it gives \<^verbatim>\<open>output_format\<close> so, the field
  \<^verbatim>\<open>output_format\<close> is the empty string, not \<^verbatim>\<open>png\<close>. More generally a value that is given
  reaches its field as its text, stripped: the default stands in only for a parameter
  that neither the direct map nor the query string gives.
\<close>

theorem blank_option_sent_empty:
  assumes "request_shaped event" and "\<not> preflight event"
    and "get_param event ''prompt'' [] = Inr p" and "strip p \<noteq> []"
  shows "\<exists>n f a rest.
           fst (lambda_handler w event) =
             InvokeModel (MODEL_ID (cfg w)) ''application/json'' ''application/json''
               (json_dumps (JObj [(''prompt'', JStr (strip p)),
                                  (''negative_prompt'', JStr n),
                                  (''mode'', JStr ''text-to-image''),
                                  (''seed'', JInt 0),
                                  (''output_format'', JStr f),
                                  (''aspect_ratio'', JStr a)])) # rest
           \<and> (param_blank event ''aspect_ratio'' \<longrightarrow> a = [] \<and> a \<noteq> ''1:1'')
           \<and> (param_blank event ''output_format'' \<longrightarrow> f = [] \<and> f \<noteq> ''png'')
           \<and> (\<forall>v. given event ''aspect_ratio'' = Some v \<longrightarrow> a = strip (py_str v))
           \<and> (\<forall>v. given event ''output_format'' = Some v \<longrightarrow> f = strip (py_str v))"
proof -
  obtain rest where "fst (lambda_handler w event) =
      InvokeModel (MODEL_ID (cfg w)) ''application/json'' ''application/json''
        (json_dumps (JObj
           [(''prompt'', JStr (strip p)),
            (''negative_prompt'', JStr
               (strip (case given event ''negative_prompt'' of
                         None \<Rightarrow> [] | Some v \<Rightarrow> py_str v))),
            (''mode'', JStr ''text-to-image''),
            (''seed'', JInt 0),
            (''output_format'', JStr
               (strip (case given event ''output_format'' of
                         None \<Rightarrow> ''png'' | Some v \<Rightarrow> py_str v))),
            (''aspect_ratio'', JStr
               (strip (case given event ''aspect_ratio'' of
                         None \<Rightarrow> ''1:1'' | Some v \<Rightarrow> py_str v)))]))
      # rest"
    using shaped_first_call [OF assms, of w] unfolding request_body_def by blast
  moreover have "param_blank event ''aspect_ratio'' \<longrightarrow>
      strip (case given event ''aspect_ratio'' of None \<Rightarrow> ''1:1'' | Some v \<Rightarrow> py_str v) = []"
    by (auto simp: strip_Nil_iff dest!: given_blank)
  moreover have "param_blank event ''output_format'' \<longrightarrow>
      strip (case given event ''output_format'' of None \<Rightarrow> ''png'' | Some v \<Rightarrow> py_str v) = []"
    by (auto simp: strip_Nil_iff dest!: given_blank)
  moreover have "\<forall>v. given event ''aspect_ratio'' = Some v \<longrightarrow>
      strip (case given event ''aspect_ratio'' of None \<Rightarrow> ''1:1'' | Some v \<Rightarrow> py_str v)
        = strip (py_str v)"
    by simp
  moreover have "\<forall>v. given event ''output_format'' = Some v \<longrightarrow>
      strip (case given event ''output_format'' of None \<Rightarrow> ''png'' | Some v \<Rightarrow> py_str v)
        = strip (py_str v)"
    by simp
  ultimately show ?thesis by fastforce
qed

theorem blank_option_sent_empty_witness:
  \<open>fst (lambda_handler (example_world (JObj []))
          (JObj [(''prompt'', JStr ''a red fox''), (''aspect_ratio'', JStr [CHR 0x20, CHR 0x20]),
                 (''queryStringParameters'', JObj [(''output_format'', JStr [CHR 0x09])])])) =
     [InvokeModel ''stability.sd3-5-large-v1:0'' ''application/json'' ''application/json''
        ''{"prompt": "a red fox", "negative_prompt": "", "mode": "text-to-image", "seed": 0, "output_format": "", "aspect_ratio": ""}'']\<close>
proof -
  let ?e = "JObj [(''prompt'', JStr ''a red fox''), (''aspect_ratio'', JStr [CHR 0x20, CHR 0x20]),
                  (''queryStringParameters'', JObj [(''output_format'', JStr [CHR 0x09])])]"
  have a: "request_shaped ?e" by code_simp
  have b: "\<not> preflight ?e" by code_simp
  have c: "get_param ?e ''prompt'' [] = Inr ''a red fox''" by code_simp
  have d: "strip ''a red fox'' \<noteq> []" by code_simp
  have e: "param_blank ?e ''aspect_ratio''" "param_blank ?e ''output_format''"
    by code_simp+
  have g: \<open>fst (lambda_handler (example_world (JObj [])) ?e) =
     [InvokeModel ''stability.sd3-5-large-v1:0'' ''application/json'' ''application/json''
        ''{"prompt": "a red fox", "negative_prompt": "", "mode": "text-to-image", "seed": 0, "output_format": "", "aspect_ratio": ""}'']\<close>
    by code_simp
  from blank_option_sent_empty [OF a b c d, of "example_world (JObj [])"] e g show ?thesis
    by simp
qed

section \<open>Success\<close>

lemma store_signed:
  assumes "snd (store w f bs) = Inr r"
    and "GeneratePresignedUrl cm b k e hm \<in> set (fst (store w f bs))"
  shows "\<exists>url. generate_presigned_url w cm b k e hm = Inr url \<and> r = answer url"
  using assms
  by (auto simp: store_def Let_def debug_lines_def split: sum.splits)

lemma generate_signed:
  assumes "generate w p n a f = (tr, Inr r)"
    and "GeneratePresignedUrl cm b k e hm \<in> set tr"
  shows "\<exists>url. generate_presigned_url w cm b k e hm = Inr url \<and> r = answer url"
  using assms
  by (auto simp: generate_def Let_def case_prod_beta split: sum.splits option.splits
           dest: store_signed)

text \<open>
  C8. A run that obtained a signed address and returns a response is a success: the
  response has status 200 and its body is the JSON object with the single field
  \<^verbatim>\<open>presigned_url\<close>, bound to the address the store signed. The plain object address is
  not in it.
\<close>

theorem success_response:
  assumes "lambda_handler w event = (tr, Inr r)"
    and "GeneratePresignedUrl cm b k e hm \<in> set tr"
  shows "\<exists>url. generate_presigned_url w cm b k e hm = Inr url
           \<and> r = \<lparr>statusCode = 200,
                   headers = [(''Content-Type'', ''application/json''),
                              (''Access-Control-Allow-Origin'', ''*''),
                              (''Access-Control-Allow-Headers'', ''Content-Type''),
                              (''Access-Control-Allow-Methods'', ''GET,OPTIONS'')],
                   body = json_dumps (JObj [(''presigned_url'', JStr url)])\<rparr>"
proof -
  from assms have "\<exists>url. generate_presigned_url w cm b k e hm = Inr url \<and> r = answer url"
    by (auto simp: lambda_handler_def split: sum.splits if_splits dest: generate_signed)
  then show ?thesis
    by (simp add: answer_def del: json_dumps.simps)
qed


theorem success_response_witness:
  "GeneratePresignedUrl ''get_object'' ''posters''
       ''generated/20260307T140509Z-9f1c2d3e4a5b4c6d8e7f0123456789ab.png'' 3600 ''GET''
     \<in> set (fst (lambda_handler (example_world (JObj [(''images'', JList [JStr ''QUJD''])]))
                    (JObj [(''prompt'', JStr ''a red fox'')])))
   \<and> snd (lambda_handler (example_world (JObj [(''images'', JList [JStr ''QUJD''])]))
            (JObj [(''prompt'', JStr ''a red fox'')])) =
       Inr \<lparr>statusCode = 200,
            headers = [(''Content-Type'', ''application/json''),
                       (''Access-Control-Allow-Origin'', ''*''),
                       (''Access-Control-Allow-Headers'', ''Content-Type''),
                       (''Access-Control-Allow-Methods'', ''GET,OPTIONS'')],
            body = json_dumps (JObj [(''presigned_url'', JStr ''https://posters.s3.us-east-2.amazonaws.com/generated/20260307T140509Z-9f1c2d3e4a5b4c6d8e7f0123456789ab.png?X-Amz-Algorithm=AWS4-HMAC-SHA256&X-Amz-Expires=3600'')])\<rparr>"
proof -
  let ?w = "example_world (JObj [(''images'', JList [JStr ''QUJD''])])"
  let ?run = "lambda_handler ?w (JObj [(''prompt'', JStr ''a red fox'')])"
  let ?key = "''generated/20260307T140509Z-9f1c2d3e4a5b4c6d8e7f0123456789ab.png''"
  have a: "GeneratePresignedUrl ''get_object'' ''posters'' ?key 3600 ''GET'' \<in> set (fst ?run)"
    by code_simp
  have "snd ?run = Inr (answer ''https://posters.s3.us-east-2.amazonaws.com/generated/20260307T140509Z-9f1c2d3e4a5b4c6d8e7f0123456789ab.png?X-Amz-Algorithm=AWS4-HMAC-SHA256&X-Amz-Expires=3600'')"
    by code_simp
  then have x: "?run = (fst ?run, Inr (answer ''https://posters.s3.us-east-2.amazonaws.com/generated/20260307T140509Z-9f1c2d3e4a5b4c6d8e7f0123456789ab.png?X-Amz-Algorithm=AWS4-HMAC-SHA256&X-Amz-Expires=3600''))"
    by (simp add: prod_eq_iff)
  have c: "generate_presigned_url ?w ''get_object'' ''posters'' ?key 3600 ''GET'' =
      Inr ''https://posters.s3.us-east-2.amazonaws.com/generated/20260307T140509Z-9f1c2d3e4a5b4c6d8e7f0123456789ab.png?X-Amz-Algorithm=AWS4-HMAC-SHA256&X-Amz-Expires=3600''"
    by code_simp
  from success_response [OF x a] c x a show ?thesis
    by (auto simp: prod_eq_iff simp del: json_dumps.simps)
qed

section \<open>The storage key\<close>

lemma of_char_hexdigit: "n < 16 \<Longrightarrow> of_char (hexdigit n) = (if n < 10 then 48 + n else 87 + n)"
  by (simp add: hexdigit_def)

lemma hexdigit_inj:
  assumes "a < 16" and "b < 16" and "hexdigit a = hexdigit b"
  shows "a = b"
proof -
  from assms(3) have "(of_char (hexdigit a) :: nat) = of_char (hexdigit b)"
    by simp
  then have "(if a < 10 then 48 + a else 87 + a) = (if b < 10 then 48 + b else 87 + b)"
    by (simp only: of_char_hexdigit [OF assms(1)] of_char_hexdigit [OF assms(2)])
  then show ?thesis
    by (simp split: if_splits)
qed

lemma low_four: "(x :: 128 word) AND 0xF = take_bit 4 x"
proof -
  have "(0xF :: 128 word) = mask 4"
    by (simp add: mask_eq_exp_minus_1)
  then show ?thesis
    by (simp add: take_bit_eq_mask)
qed

lemma unat_low_four: "unat ((x :: 128 word) AND 0xF) < 16"
proof -
  have "unat (take_bit 4 x) = take_bit 4 (unat x)"
    by (rule unsigned_take_bit_eq)
  also have "\<dots> < 2 ^ 4"
    by (rule take_bit_nat_less_exp)
  finally show ?thesis
    by (simp add: low_four)
qed

lemma uuid_hex_length: "length (uuid_hex u) = 32"
  by (simp add: uuid_hex_def)

lemma uuid_hex_inj:
  assumes "uuid_hex u = uuid_hex v"
  shows "u = v"
proof (rule bit_word_eqI)
  fix n
  assume "n < LENGTH(128)"
  then have i: "n div 4 < 32"
    by simp
  from assms have "\<forall>i \<in> set (rev [0..<32]).
      hexdigit (unat (drop_bit (4 * i) u AND 0xF)) = hexdigit (unat (drop_bit (4 * i) v AND 0xF))"
    unfolding uuid_hex_def map_eq_conv .
  with i have "hexdigit (unat (drop_bit (4 * (n div 4)) u AND 0xF))
                 = hexdigit (unat (drop_bit (4 * (n div 4)) v AND 0xF))"
    by simp
  then have "unat (drop_bit (4 * (n div 4)) u AND 0xF) = unat (drop_bit (4 * (n div 4)) v AND 0xF)"
    by (rule hexdigit_inj [OF unat_low_four unat_low_four])
  then have "take_bit 4 (drop_bit (4 * (n div 4)) u) = take_bit 4 (drop_bit (4 * (n div 4)) v)"
    by (simp add: low_four word_unat_eq_iff)
  then have "bit (take_bit 4 (drop_bit (4 * (n div 4)) u)) (n mod 4)
               = bit (take_bit 4 (drop_bit (4 * (n div 4)) v)) (n mod 4)"
    by simp
  then show "bit u n = bit v n"
    by (simp add: bit_take_bit_iff bit_drop_bit_eq)
qed

lemma digit_inj:
  fixes a b :: nat
  assumes "a < 10" and "b < 10" and "char_of (48 + a) = (char_of (48 + b) :: char)"
  shows "a = b"
proof -
  from assms(3)
  have "(of_char (char_of (48 + a) :: char) :: nat) = of_char (char_of (48 + b) :: char)"
    by simp
  with assms(1,2) show ?thesis
    by simp
qed

lemma zero_char: "CHR ''0'' = char_of (48 :: nat)"
  by (rule sym) (simp add: char_of_eq_iff)

lemma two_digits:
  assumes "n < 100"
  shows "zfill 2 (dec_nat n) = [char_of (48 + n div 10), char_of (48 + n mod 10)]"
proof (cases "n < 10")
  case True
  then show ?thesis
    by (simp add: dec_nat.simps [of n] zfill_def zero_char)
next
  case False
  with assms have "n div 10 < 10" by simp
  with False show ?thesis
    by (simp add: dec_nat.simps [of n] dec_nat.simps [of "n div 10"] zfill_def)
qed

lemma four_digits:
  assumes "1000 \<le> n" and "n \<le> 9999"
  shows "zfill 4 (dec_nat n) =
           [char_of (48 + n div 1000), char_of (48 + n div 100 mod 10),
            char_of (48 + n div 10 mod 10), char_of (48 + n mod 10)]"
proof -
  have "n div 1000 < 10"
    using assms by simp
  then have a: "dec_nat (n div 1000) = [char_of (48 + n div 1000)]"
    by (simp add: dec_nat.simps [of "n div 1000"])
  have "\<not> n div 100 < 10" and "n div 100 div 10 = n div 1000"
    using assms by (simp_all add: div_mult2_eq [symmetric])
  then have b: "dec_nat (n div 100) = dec_nat (n div 1000) @ [char_of (48 + n div 100 mod 10)]"
    by (simp add: dec_nat.simps [of "n div 100"])
  have "\<not> n div 10 < 10" and "n div 10 div 10 = n div 100"
    using assms by (simp_all add: div_mult2_eq [symmetric])
  then have c: "dec_nat (n div 10) = dec_nat (n div 100) @ [char_of (48 + n div 10 mod 10)]"
    by (simp add: dec_nat.simps [of "n div 10"])
  have "\<not> n < 10"
    using assms by simp
  then have d: "dec_nat n = dec_nat (n div 10) @ [char_of (48 + n mod 10)]"
    by (simp add: dec_nat.simps [of n])
  show ?thesis
    by (simp add: zfill_def a b c d)
qed

lemma tens_units:
  fixes a b :: nat
  assumes "a div 10 = b div 10" and "a mod 10 = b mod 10"
  shows "a = b"
proof -
  have "a = a div 10 * 10 + a mod 10" by simp
  also have "\<dots> = b div 10 * 10 + b mod 10" by (simp only: assms)
  also have "\<dots> = b" by simp
  finally show ?thesis .
qed

lemma two_digits_inj:
  fixes m n :: nat
  assumes "m < 100" and "n < 100"
    and "char_of (48 + m div 10) = (char_of (48 + n div 10) :: char)"
    and "char_of (48 + m mod 10) = (char_of (48 + n mod 10) :: char)"
  shows "m = n"
proof (rule tens_units)
  show "m div 10 = n div 10"
    using assms(1,2) by (intro digit_inj [OF _ _ assms(3)]) simp_all
  show "m mod 10 = n mod 10"
    by (intro digit_inj [OF _ _ assms(4)]) simp_all
qed

lemma four_digits_inj:
  fixes m n :: nat
  assumes "m \<le> 9999" and "n \<le> 9999"
    and "char_of (48 + m div 1000) = (char_of (48 + n div 1000) :: char)"
    and "char_of (48 + m div 100 mod 10) = (char_of (48 + n div 100 mod 10) :: char)"
    and "char_of (48 + m div 10 mod 10) = (char_of (48 + n div 10 mod 10) :: char)"
    and "char_of (48 + m mod 10) = (char_of (48 + n mod 10) :: char)"
  shows "m = n"
proof -
  have d: "k div 100 div 10 = k div 1000" "k div 10 div 10 = k div 100" for k :: nat
    by (simp_all add: div_mult2_eq [symmetric])
  have "m div 1000 = n div 1000"
    using assms(1,2) by (intro digit_inj [OF _ _ assms(3)]) simp_all
  then have a: "m div 100 div 10 = n div 100 div 10"
    by (simp only: d)
  have b: "m div 100 mod 10 = n div 100 mod 10"
    by (intro digit_inj [OF _ _ assms(4)]) simp_all
  have "m div 100 = n div 100"
    using a b by (rule tens_units)
  then have a': "m div 10 div 10 = n div 10 div 10"
    by (simp only: d)
  have b': "m div 10 mod 10 = n div 10 mod 10"
    by (intro digit_inj [OF _ _ assms(5)]) simp_all
  have a'': "m div 10 = n div 10"
    using a' b' by (rule tens_units)
  have b'': "m mod 10 = n mod 10"
    by (intro digit_inj [OF _ _ assms(6)]) simp_all
  show ?thesis
    using a'' b'' by (rule tens_units)
qed

lemma strftime_digits:
  assumes "clock_ok t"
  shows "strftime t =
           [char_of (48 + dt_year t div 1000), char_of (48 + dt_year t div 100 mod 10),
            char_of (48 + dt_year t div 10 mod 10), char_of (48 + dt_year t mod 10),
            char_of (48 + dt_month t div 10), char_of (48 + dt_month t mod 10),
            char_of (48 + dt_day t div 10), char_of (48 + dt_day t mod 10),
            CHR ''T'',
            char_of (48 + dt_hour t div 10), char_of (48 + dt_hour t mod 10),
            char_of (48 + dt_minute t div 10), char_of (48 + dt_minute t mod 10),
            char_of (48 + dt_second t div 10), char_of (48 + dt_second t mod 10),
            CHR ''Z'']"
  using assms by (simp add: strftime_def clock_ok_def two_digits four_digits)

lemma strftime_length: "clock_ok t \<Longrightarrow> length (strftime t) = 16"
  by (simp add: strftime_digits)

lemma strftime_inj:
  assumes "clock_ok s" and "clock_ok t" and "strftime s = strftime t"
  shows "s = t"
proof -
  note eq = assms(3) [unfolded strftime_digits [OF assms(1)] strftime_digits [OF assms(2)]
                      list.inject]
  have "dt_year s = dt_year t"
    using assms(1,2) eq by (intro four_digits_inj) (simp_all add: clock_ok_def)
  moreover have "dt_month s = dt_month t"
    using assms(1,2) eq by (intro two_digits_inj) (simp_all add: clock_ok_def)
  moreover have "dt_day s = dt_day t"
    using assms(1,2) eq by (intro two_digits_inj) (simp_all add: clock_ok_def)
  moreover have "dt_hour s = dt_hour t"
    using assms(1,2) eq by (intro two_digits_inj) (simp_all add: clock_ok_def)
  moreover have "dt_minute s = dt_minute t"
    using assms(1,2) eq by (intro two_digits_inj) (simp_all add: clock_ok_def)
  moreover have "dt_second s = dt_second t"
    using assms(1,2) eq by (intro two_digits_inj) (simp_all add: clock_ok_def)
  ultimately show ?thesis
    by simp
qed

lemma key_prefix_slash: "suffix ''/'' (key_prefix c)"
  by (simp add: key_prefix_def suffix_def)

lemma store_key:
  "PutObject b k d c \<in> set (fst (store w f bs)) \<Longrightarrow> k = object_key w f"
  by (auto simp: store_def Let_def debug_lines_def split: sum.splits)

lemma generate_key:
  "PutObject b k d c \<in> set (fst (generate w p n a f)) \<Longrightarrow> k = object_key w f"
  by (auto simp: generate_def Let_def case_prod_beta split: sum.splits option.splits
           dest: store_key)

lemma handler_key:
  assumes "PutObject b k d c \<in> set (fst (lambda_handler w event))"
  shows "\<exists>f. stripped (get_param event ''output_format'' ''png'') f \<and> k = object_key w f"
  using assms
  by (auto simp: lambda_handler_def stripped_def split: sum.splits if_splits dest: generate_key)

lemma object_key_inj:
  assumes "object_key w f = object_key w' f'"
    and "KEY_PREFIX (cfg w) = KEY_PREFIX (cfg w')"
    and "clock_ok (utcnow w)" and "clock_ok (utcnow w')"
  shows "utcnow w = utcnow w' \<and> uuid4 w = uuid4 w' \<and> f = f'"
proof -
  from assms(2) have "key_prefix (cfg w) = key_prefix (cfg w')"
    by (simp add: key_prefix_def)
  with assms(1) have "strftime (utcnow w) @ ''-'' @ uuid_hex (uuid4 w) @ ''.'' @ f
                    = strftime (utcnow w') @ ''-'' @ uuid_hex (uuid4 w') @ ''.'' @ f'"
    by (simp add: object_key_def)
  with strftime_length [OF assms(3)] strftime_length [OF assms(4)]
  have t: "strftime (utcnow w) = strftime (utcnow w')"
    and "uuid_hex (uuid4 w) @ ''.'' @ f = uuid_hex (uuid4 w') @ ''.'' @ f'"
    by simp_all
  then have "uuid_hex (uuid4 w) = uuid_hex (uuid4 w')" and "f = f'"
    by (simp_all add: uuid_hex_length)
  with t show ?thesis
    by (simp add: strftime_inj [OF assms(3,4)] uuid_hex_inj)
qed

text \<open>
  C5, as the code has it. The key of every upload is the configured prefix, made to end
  with \<^verbatim>\<open>/\<close>, then the clock reading printed to the second (16 characters for a clock
  within range), \<^verbatim>\<open>-\<close>, the 32 hexadecimal digits of the random identifier, \<^verbatim>\<open>.\<close> and the
  output format of the request. Two runs under the same prefix can upload under the same
  key only when they read the same second and draw the same identifier: nothing but the
  random draw keeps the keys of two requests of one second apart.
\<close>

theorem storage_key_shape:
  "(PutObject b k d c \<in> set (fst (lambda_handler w event)) \<longrightarrow>
      (\<exists>f. stripped (get_param event ''output_format'' ''png'') f
           \<and> k = key_prefix (cfg w) @ strftime (utcnow w) @ ''-'' @ uuid_hex (uuid4 w)
                 @ ''.'' @ f)
      \<and> suffix ''/'' (key_prefix (cfg w))
      \<and> (key_prefix (cfg w) = KEY_PREFIX (cfg w)
           \<or> key_prefix (cfg w) = KEY_PREFIX (cfg w) @ ''/'')
      \<and> length (uuid_hex (uuid4 w)) = 32
      \<and> (clock_ok (utcnow w) \<longrightarrow> length (strftime (utcnow w)) = 16))
   \<and> (PutObject b k d c \<in> set (fst (lambda_handler w event))
        \<and> PutObject b' k d' c' \<in> set (fst (lambda_handler w' event'))
        \<and> KEY_PREFIX (cfg w) = KEY_PREFIX (cfg w')
        \<and> clock_ok (utcnow w) \<and> clock_ok (utcnow w') \<longrightarrow>
      utcnow w = utcnow w' \<and> uuid4 w = uuid4 w')"
proof (intro conjI impI)
  assume "PutObject b k d c \<in> set (fst (lambda_handler w event))"
  from handler_key [OF this]
  show "\<exists>f. stripped (get_param event ''output_format'' ''png'') f
           \<and> k = key_prefix (cfg w) @ strftime (utcnow w) @ ''-'' @ uuid_hex (uuid4 w)
                 @ ''.'' @ f"
    by (simp add: object_key_def)
next
  show "suffix ''/'' (key_prefix (cfg w))"
    by (rule key_prefix_slash)
next
  show "key_prefix (cfg w) = KEY_PREFIX (cfg w)
          \<or> key_prefix (cfg w) = KEY_PREFIX (cfg w) @ ''/''"
    by (simp add: key_prefix_def)
next
  show "length (uuid_hex (uuid4 w)) = 32"
    by (rule uuid_hex_length)
next
  assume "clock_ok (utcnow w)"
  then show "length (strftime (utcnow w)) = 16"
    by (rule strftime_length)
next
  assume a: "PutObject b k d c \<in> set (fst (lambda_handler w event))
        \<and> PutObject b' k d' c' \<in> set (fst (lambda_handler w' event'))
        \<and> KEY_PREFIX (cfg w) = KEY_PREFIX (cfg w')
        \<and> clock_ok (utcnow w) \<and> clock_ok (utcnow w')"
  then obtain f f' where "k = object_key w f" and "k = object_key w' f'"
    using handler_key [of b k d c w event] handler_key [of b' k d' c' w' event'] by blast
  then have "object_key w f = object_key w' f'"
    by simp
  from object_key_inj [OF this] a show "utcnow w = utcnow w'" and "uuid4 w = uuid4 w'"
    by simp_all
qed

theorem storage_key_shape_witness:
  "PutObject ''posters'' ''generated/20260307T140509Z-9f1c2d3e4a5b4c6d8e7f0123456789ab.png''
       [0x41, 0x42, 0x43] ''image/png''
     \<in> set (fst (lambda_handler (example_world (JObj [(''images'', JList [JStr ''QUJD''])]))
                    (JObj [(''prompt'', JStr ''a red fox'')])))
   \<and> key_prefix example_config = ''generated/''
   \<and> strftime (utcnow (example_world (JObj [(''images'', JList [JStr ''QUJD''])])))
       = ''20260307T140509Z''
   \<and> uuid_hex (uuid4 (example_world (JObj [(''images'', JList [JStr ''QUJD''])])))
       = ''9f1c2d3e4a5b4c6d8e7f0123456789ab''"
proof -
  let ?w = "example_world (JObj [(''images'', JList [JStr ''QUJD''])])"
  let ?w' = "example_world (JObj [(''images'', JList [JStr ''eHl6''])])"
  let ?e = "JObj [(''prompt'', JStr ''a red fox'')]"
  let ?e' = "JObj [(''prompt'', JStr ''a blue whale'')]"
  let ?k = "''generated/20260307T140509Z-9f1c2d3e4a5b4c6d8e7f0123456789ab.png''"
  have a: "PutObject ''posters'' ?k [0x41, 0x42, 0x43] ''image/png''
             \<in> set (fst (lambda_handler ?w ?e))"
    by code_simp
  have a': "PutObject ''posters'' ?k [0x78, 0x79, 0x7A] ''image/png''
             \<in> set (fst (lambda_handler ?w' ?e'))"
    by code_simp
  have b: "KEY_PREFIX (cfg ?w) = KEY_PREFIX (cfg ?w')" "clock_ok (utcnow ?w)"
      "clock_ok (utcnow ?w')"
    by (simp_all add: example_world_def clock_ok_def)
  have c: "key_prefix example_config = ''generated/''"
    "strftime (utcnow ?w) = ''20260307T140509Z''"
    "uuid_hex (uuid4 ?w) = ''9f1c2d3e4a5b4c6d8e7f0123456789ab''"
    by code_simp+
  from storage_key_shape [of "''posters''" ?k "[0x41, 0x42, 0x43]" "''image/png''" ?w ?e
         "''posters''" "[0x78, 0x79, 0x7A]" "''image/png''" ?w' ?e'] a a' b c
  show ?thesis
    by simp
qed

text \<open>
  Two successful requests, with different prompts and different images, that read the same
  second and draw the same identifier store their images under the same key.
\<close>

theorem same_draw_same_key_counterexample:
  "stored_keys (fst (lambda_handler (example_world (JObj [(''images'', JList [JStr ''QUJD''])]))
                      (JObj [(''prompt'', JStr ''a red fox'')])))
     = [''generated/20260307T140509Z-9f1c2d3e4a5b4c6d8e7f0123456789ab.png'']
   \<and> stored_keys (fst (lambda_handler (example_world (JObj [(''images'', JList [JStr ''eHl6''])]))
                        (JObj [(''prompt'', JStr ''a blue whale'')])))
     = [''generated/20260307T140509Z-9f1c2d3e4a5b4c6d8e7f0123456789ab.png'']
   \<and> snd (lambda_handler (example_world (JObj [(''images'', JList [JStr ''QUJD''])]))
            (JObj [(''prompt'', JStr ''a red fox'')]))
     = Inr (answer ''https://posters.s3.us-east-2.amazonaws.com/generated/20260307T140509Z-9f1c2d3e4a5b4c6d8e7f0123456789ab.png?X-Amz-Algorithm=AWS4-HMAC-SHA256&X-Amz-Expires=3600'')
   \<and> snd (lambda_handler (example_world (JObj [(''images'', JList [JStr ''eHl6''])]))
            (JObj [(''prompt'', JStr ''a blue whale'')]))
     = Inr (answer ''https://posters.s3.us-east-2.amazonaws.com/generated/20260307T140509Z-9f1c2d3e4a5b4c6d8e7f0123456789ab.png?X-Amz-Algorithm=AWS4-HMAC-SHA256&X-Amz-Expires=3600'')"
  by code_simp

end
